theory Spec2Isabelle
  imports Complex_Main
begin

section \<open>The Orbital Injection Simulator (components/OrbitalLab.tsx)\<close>

text \<open>
  The embedding follows \<^verbatim>\<open>src/components/OrbitalLab.tsx\<close>. JavaScript numbers are
  modelled as real numbers: arithmetic is exact, there is no rounding and no NaN, so a
  property that depends on the rounding of doubles cannot be stated here. The one
  place where the source writes \<^verbatim>\<open>Infinity\<close> is modelled by a constructor of its own.
  React state and refs of the two components (\<^verbatim>\<open>OrbitalLab\<close> and \<^verbatim>\<open>SimulationScene\<close>)
  are the fields of one record; every handler, effect and frame callback is a function
  from the record to the updated record, executed atomically.
\<close>

subsection \<open>Physics constants\<close>

definition PLANET_RADIUS :: real where
  "PLANET_RADIUS = 2"

definition GM :: real where
  "GM = 20"

definition INITIAL_RADIUS :: real where
  "INITIAL_RADIUS = 4"

subsection \<open>The vector operations the source calls (THREE.Vector3)\<close>

text \<open>
  The methods of the three.js vector class, as the library defines them. A method that
  changes its vector in place returns the new value here; \<^verbatim>\<open>clone()\<close> is the identity.
\<close>

datatype vector3 = Vector3 (vecx: real) (vecy: real) (vecz: real)

definition length_v :: "vector3 \<Rightarrow> real" where
  "length_v v = sqrt (vecx v * vecx v + vecy v * vecy v + vecz v * vecz v)"

definition multiplyScalar :: "vector3 \<Rightarrow> real \<Rightarrow> vector3" where
  "multiplyScalar v k = Vector3 (vecx v * k) (vecy v * k) (vecz v * k)"

definition divideScalar :: "vector3 \<Rightarrow> real \<Rightarrow> vector3" where
  "divideScalar v k = multiplyScalar v (1 / k)"

text \<open>\<^verbatim>\<open>normalize()\<close> divides by \<^verbatim>\<open>this.length() || 1\<close>: the zero vector stays as it is.\<close>

definition normalize_v :: "vector3 \<Rightarrow> vector3" where
  "normalize_v v = divideScalar v (if length_v v = 0 then 1 else length_v v)"

definition negate :: "vector3 \<Rightarrow> vector3" where
  "negate v = Vector3 (- vecx v) (- vecy v) (- vecz v)"

definition add_v :: "vector3 \<Rightarrow> vector3 \<Rightarrow> vector3" where
  "add_v a b = Vector3 (vecx a + vecx b) (vecy a + vecy b) (vecz a + vecz b)"

definition distanceTo :: "vector3 \<Rightarrow> vector3 \<Rightarrow> real" where
  "distanceTo a b =
     (let dx = vecx a - vecx b; dy = vecy a - vecy b; dz = vecz a - vecz b
      in sqrt (dx * dx + dy * dy + dz * dz))"

subsection \<open>State of the lab\<close>

datatype status = IDLE | ORBITING | CRASH | ESCAPE

text \<open>The two callbacks the scene receives; a frame returns the calls it made, in order.\<close>

datatype event = CrashEvent | EscapeEvent

record lab =
  running :: bool
  speed :: real
  angle :: real
  resetCount :: nat
  status :: status
  satPos :: vector3
  satVel :: vector3
  trail :: "vector3 list"
  crashed :: bool

definition onCrash :: "lab \<Rightarrow> lab" where
  "onCrash s = s\<lparr>status := CRASH\<rparr>"

definition onEscape :: "lab \<Rightarrow> lab" where
  "onEscape s = s\<lparr>status := ESCAPE\<rparr>"

subsection \<open>Initialize / Reset effect of the scene\<close>

text \<open>
  The effect depends on \<^verbatim>\<open>[resetTrigger, initialSpeed, angle]\<close>; the scene receives
  \<^verbatim>\<open>initialSpeed = speed\<close>, \<^verbatim>\<open>angle = angle\<close> and \<^verbatim>\<open>resetTrigger = resetCount\<close>.
\<close>

definition resetEffect :: "lab \<Rightarrow> lab" where
  "resetEffect s =
     (let rads = (angle s * pi) / 180;
          vx = sin rads * speed s;
          vz = - cos rads * speed s
      in s\<lparr>satPos := Vector3 INITIAL_RADIUS 0 0,
            satVel := Vector3 vx 0 vz,
            trail := [Vector3 INITIAL_RADIUS 0 0],
            crashed := False\<rparr>)"

text \<open>The state once both components are mounted and the effect has run for the first time.\<close>

definition mounted :: lab where
  "mounted = resetEffect
     \<lparr>running = False, speed = 2.2, angle = 0, resetCount = 0, status = IDLE,
      satPos = Vector3 INITIAL_RADIUS 0 0, satVel = Vector3 0 0 0, trail = [],
      crashed = False\<rparr>"

subsection \<open>Handlers of the main component\<close>

definition handlePlay :: "lab \<Rightarrow> lab" where
  "handlePlay s = (if running s then s else s\<lparr>running := True, status := ORBITING\<rparr>)"

text \<open>
  \<^verbatim>\<open>handleReset\<close> increments \<^verbatim>\<open>resetCount\<close>, so the scene's effect runs on the
  render that follows.
\<close>

definition handleReset :: "lab \<Rightarrow> lab" where
  "handleReset s =
     resetEffect (s\<lparr>running := False, resetCount := resetCount s + 1, status := IDLE\<rparr>)"

text \<open>The two sliders: \<^verbatim>\<open>setSpeed(v); handleReset()\<close> and \<^verbatim>\<open>setAngle(v); handleReset()\<close>.\<close>

definition onChangeSpeed :: "real \<Rightarrow> lab \<Rightarrow> lab" where
  "onChangeSpeed v s = handleReset (s\<lparr>speed := v\<rparr>)"

definition onChangeAngle :: "real \<Rightarrow> lab \<Rightarrow> lab" where
  "onChangeAngle v s = handleReset (s\<lparr>angle := v\<rparr>)"

subsection \<open>The frame callback\<close>

text \<open>
  One pass of the body of \<^verbatim>\<open>for (let i = 0; i < steps; i++)\<close>. \<open>Returned\<close> is the
  early \<^verbatim>\<open>return\<close> of the crash branch, \<open>Continued\<close> the end of the body.
\<close>

datatype 'a outcome = Returned 'a | Continued 'a

text \<open>
  The acceleration,
  \<^verbatim>\<open>satPos.current.clone().normalize().negate().multiplyScalar(GM / (r * r))\<close>.
\<close>

definition gravity :: "vector3 \<Rightarrow> real \<Rightarrow> vector3" where
  "gravity pos r = multiplyScalar (negate (normalize_v pos)) (GM / (r * r))"

definition loopBody :: "real \<Rightarrow> lab \<Rightarrow> (lab \<times> event list) outcome" where
  "loopBody dt s =
     (let r = length_v (satPos s) in
      if r < PLANET_RADIUS + 0.1 then Returned (onCrash (s\<lparr>crashed := True\<rparr>), [CrashEvent])
      else
        let (s1, evs) = (if r > 60 then (onEscape s, [EscapeEvent]) else (s, []));
            accel = gravity (satPos s1) r;
            s2 = s1\<lparr>satVel := add_v (satVel s1) (multiplyScalar accel dt)\<rparr>;
            s3 = s2\<lparr>satPos := add_v (satPos s2) (multiplyScalar (satVel s2) dt)\<rparr>
        in Continued (s3, evs))"

text \<open>The loop with \<open>n\<close> passes left.\<close>

fun forLoop :: "nat \<Rightarrow> real \<Rightarrow> lab \<Rightarrow> event list \<Rightarrow> (lab \<times> event list) outcome" where
  "forLoop 0 dt s evs = Continued (s, evs)"
| "forLoop (Suc n) dt s evs =
     (case loopBody dt s of
        Returned (s', ev) \<Rightarrow> Returned (s', evs @ ev)
      | Continued (s', ev) \<Rightarrow> forLoop n dt s' (evs @ ev))"

text \<open>
  The update passed to \<^verbatim>\<open>setTrail\<close>. On an empty array \<^verbatim>\<open>prev[prev.length - 1]\<close> is
  \<^verbatim>\<open>undefined\<close> and nothing is added; \<^verbatim>\<open>prev.slice(-300)\<close> keeps the last 300 elements
  (all of them when there are fewer).
\<close>

definition updateTrail :: "vector3 list \<Rightarrow> vector3 \<Rightarrow> vector3 list" where
  "updateTrail prev p =
     (if prev \<noteq> [] \<and> distanceTo (last prev) p > 0.2
      then drop (length prev - 300) prev @ [p]
      else prev)"

definition useFrame :: "real \<Rightarrow> lab \<Rightarrow> lab \<times> event list" where
  "useFrame delta s =
     (if \<not> running s \<or> crashed s then (s, [])
      else
        let steps = 4;
            dt = (delta * 1) / real steps
        in case forLoop steps dt s [] of
             Returned res \<Rightarrow> res
           | Continued (s', evs) \<Rightarrow> (s'\<lparr>trail := updateTrail (trail s') (satPos s')\<rparr>, evs))"

subsection \<open>Inputs of the lab over time\<close>

text \<open>
  The host drives the lab by frames (each with its elapsed time) and by the operator's
  inputs: the launch button, the reset button and the two sliders.
\<close>

datatype action = Frame real | Play | Reset | ChangeSpeed real | ChangeAngle real

fun step :: "action \<Rightarrow> lab \<Rightarrow> lab" where
  "step (Frame delta) s = fst (useFrame delta s)"
| "step Play s = handlePlay s"
| "step Reset s = handleReset s"
| "step (ChangeSpeed v) s = onChangeSpeed v s"
| "step (ChangeAngle v) s = onChangeAngle v s"

fun run :: "action list \<Rightarrow> lab \<Rightarrow> lab" where
  "run [] s = s"
| "run (a # as) s = run as (step a s)"

subsection \<open>Trajectory calculation of the main component\<close>

text \<open>
  The function of \<^verbatim>\<open>trajectoryStats\<close>, with \<^verbatim>\<open>speed\<close> and \<^verbatim>\<open>angle\<close> as its arguments.
  Its locals \<^verbatim>\<open>specificEnergy\<close>, \<^verbatim>\<open>h\<close>, \<^verbatim>\<open>a\<close> and \<^verbatim>\<open>e\<close> are definitions of their own,
  since the function returns only \<^verbatim>\<open>maxAU\<close>, \<^verbatim>\<open>targetText\<close> and \<^verbatim>\<open>energy\<close>; the chain of
  comparisons that chooses \<^verbatim>\<open>targetText\<close> is \<open>targetOf\<close>. The branch \<^verbatim>\<open>rMin < PLANET_RADIUS\<close>
  has an empty body and is left out.
\<close>

datatype number = Num real | Infinity

record stats =
  maxAU :: number
  targetText :: string
  energy :: real

definition specificEnergy :: "real \<Rightarrow> real" where
  "specificEnergy v0 = (v0 * v0) / 2 - GM / INITIAL_RADIUS"

definition angularMomentum :: "real \<Rightarrow> real \<Rightarrow> real" where
  "angularMomentum v0 ang = INITIAL_RADIUS * v0 * cos ((ang * pi) / 180)"

definition semiMajorAxis :: "real \<Rightarrow> real" where
  "semiMajorAxis E = - GM / (2 * E)"

definition eccentricity :: "real \<Rightarrow> real \<Rightarrow> real" where
  "eccentricity E h = sqrt (1 + (2 * E * h * h) / (GM * GM))"

definition targetOf :: "real \<Rightarrow> string" where
  "targetOf au =
     (if au < 1.1 then ''Low Earth Orbit''
      else if au < 1.4 then ''High Earth Orbit''
      else if au < 1.8 then ''Reaching Mars''
      else if au < 3.0 then ''Asteroid Belt''
      else if au < 6.0 then ''Reaching Jupiter''
      else if au < 12.0 then ''Reaching Saturn''
      else if au < 25.0 then ''Reaching Uranus''
      else ''Reaching Neptune/Pluto'')"

definition trajectoryStats :: "real \<Rightarrow> real \<Rightarrow> stats" where
  "trajectoryStats v0 ang =
     (let E = specificEnergy v0;
          h = angularMomentum v0 ang
      in if E \<ge> 0
         then \<lparr>maxAU = Infinity, targetText = ''Interstellar Space (Escape)'', energy = E\<rparr>
         else
           let a = semiMajorAxis E;
               e = eccentricity E h;
               rMax = a * (1 + e);
               au = rMax / 4
           in \<lparr>maxAU = Num au, targetText = targetOf au, energy = E\<rparr>)"

subsection \<open>The specification's classification table\<close>

text \<open>
  The specification describes the classification as a fixed ordered list of
  (threshold, label) pairs checked in ascending order, the first match winning, with a
  catch-all at the end. These two definitions follow the specification's words; they are
  compared with \<open>targetOf\<close> below.
\<close>

definition spec_table :: "(real \<times> string) list" where
  "spec_table =
     [(1.1, ''Low Earth Orbit''), (1.4, ''High Earth Orbit''), (1.8, ''Reaching Mars''),
      (3.0, ''Asteroid Belt''), (6.0, ''Reaching Jupiter''), (12.0, ''Reaching Saturn''),
      (25.0, ''Reaching Uranus'')]"

fun spec_first_match :: "(real \<times> string) list \<Rightarrow> string \<Rightarrow> real \<Rightarrow> string" where
  "spec_first_match [] d x = d"
| "spec_first_match ((t, l) # ts) d x = (if x < t then l else spec_first_match ts d x)"

subsection \<open>The specification's integration step\<close>

text \<open>
  The specification's sub-step, in its words: the acceleration is \<open>- GM / r\<^sup>2 \<sqdot> r\<^sub>h\<close> with
  \<open>r = |position|\<close> and \<open>r\<^sub>h = position / r\<close>; the velocity is updated by
  \<open>acceleration \<sqdot> sub_dt\<close> first, then the position by the new velocity times
  \<open>sub_dt\<close>. It is compared with the loop of the frame callback below.
\<close>

definition spec_accel :: "vector3 \<Rightarrow> vector3" where
  "spec_accel p = multiplyScalar (divideScalar p (length_v p)) (- (GM / (length_v p)\<^sup>2))"

definition spec_substep :: "real \<Rightarrow> vector3 \<times> vector3 \<Rightarrow> vector3 \<times> vector3" where
  "spec_substep sub_dt pv =
     (let velocity = add_v (snd pv) (multiplyScalar (spec_accel (fst pv)) sub_dt);
          position = add_v (fst pv) (multiplyScalar velocity sub_dt)
      in (position, velocity))"

subsection \<open>Two example states\<close>

text \<open>
  Two states of a running lab with the satellite on the x axis and a radial velocity, so
  that every distance is a rational number: one falls back onto the planet, the other
  crosses the escape distance of 60.
\<close>

definition radial_fall :: lab where
  "radial_fall =
     \<lparr>running = True, speed = 2.2, angle = 0, resetCount = 0, status = ORBITING,
      satPos = Vector3 4 0 0, satVel = Vector3 1 0 0, trail = [Vector3 4 0 0],
      crashed = False\<rparr>"

definition radial_escape :: lab where
  "radial_escape =
     \<lparr>running = True, speed = 2.2, angle = 0, resetCount = 0, status = ORBITING,
      satPos = Vector3 59 0 0, satVel = Vector3 4 0 0, trail = [Vector3 59 0 0],
      crashed = False\<rparr>"

text \<open>The second state with a trail that has reached 301 points.\<close>

definition full_trail :: lab where
  "full_trail = radial_escape\<lparr>trail := replicate 301 (Vector3 59 0 0)\<rparr>"

section \<open>Properties\<close>

subsection \<open>Vector facts\<close>

lemma length_v_axis: "length_v (Vector3 a 0 0) = \<bar>a\<bar>"
  by (simp add: length_v_def)

lemma distanceTo_axis: "distanceTo (Vector3 a 0 0) (Vector3 b 0 0) = \<bar>a - b\<bar>"
  by (simp add: distanceTo_def Let_def)

lemma sin_cos_scaled: "sin t * k * (sin t * k) + cos t * k * (cos t * k) = k * k" for t k :: real
proof -
  have "sin t * k * (sin t * k) + cos t * k * (cos t * k) = ((sin t)\<^sup>2 + (cos t)\<^sup>2) * (k * k)"
    by (simp only: power2_eq_square algebra_simps)
  then show ?thesis by simp
qed

subsection \<open>The predictor at the default launch parameters\<close>

lemma eccentricity_default:
  "eccentricity (specificEnergy 2.2) (angularMomentum 2.2 0) = 4 / 125"
proof -
  have "1 + (2 * specificEnergy 2.2 * angularMomentum 2.2 0 * angularMomentum 2.2 0) / (GM * GM)
        = (4 / 125) * (4 / 125)"
    by (simp add: specificEnergy_def angularMomentum_def GM_def INITIAL_RADIUS_def)
  moreover have "sqrt ((4 / 125) * (4 / 125)) = (4 / 125 :: real)"
    by (rule real_sqrt_unique) (simp_all add: power2_eq_square)
  ultimately show ?thesis
    unfolding eccentricity_def by (simp only:)
qed

text \<open>
  Claim C6. With \<open>GM = 20\<close>, \<open>R0 = 4\<close>, launch speed 2.2 and launch angle 0 the predictor
  reports a negative specific energy, an eccentricity of 0.032 (within 0.05 of 0) and an
  apoapsis \<open>a \<sqdot> (1 + e)\<close> equal to \<open>R0 = 4\<close>, which it returns as 1 AU.
\<close>

theorem near_circular_injection:
  "GM = 20 \<and> INITIAL_RADIUS = 4 \<and>
   specificEnergy 2.2 < 0 \<and>
   energy (trajectoryStats 2.2 0) = specificEnergy 2.2 \<and>
   eccentricity (specificEnergy 2.2) (angularMomentum 2.2 0) = 0.032 \<and>
   \<bar>eccentricity (specificEnergy 2.2) (angularMomentum 2.2 0) - 0\<bar> \<le> 0.05 \<and>
   semiMajorAxis (specificEnergy 2.2)
     * (1 + eccentricity (specificEnergy 2.2) (angularMomentum 2.2 0)) = INITIAL_RADIUS \<and>
   maxAU (trajectoryStats 2.2 0) = Num 1 \<and>
   targetText (trajectoryStats 2.2 0) = ''Low Earth Orbit''"
  unfolding eccentricity_default trajectoryStats_def Let_def
  by (simp add: eccentricity_default specificEnergy_def semiMajorAxis_def GM_def
      INITIAL_RADIUS_def targetOf_def)

subsection \<open>The injected state in exact arithmetic\<close>

text \<open>
  The source computes the launch velocity in double precision. Over the real numbers, for
  every launch angle and every launch speed that is not negative, the velocity set by the
  reset effect has the magnitude \<open>speed\<close> and the position the magnitude \<open>R0\<close>; this says
  nothing about the rounded values.
\<close>

lemma launch_velocity_exact:
  "0 \<le> speed s \<Longrightarrow>
     vecx (satVel (resetEffect s)) = sin (angle s * pi / 180) * speed s \<and>
     vecz (satVel (resetEffect s)) = - cos (angle s * pi / 180) * speed s \<and>
     length_v (satVel (resetEffect s)) = speed s \<and>
     length_v (satPos (resetEffect s)) = INITIAL_RADIUS"
  by (simp add: resetEffect_def length_v_def INITIAL_RADIUS_def Let_def sin_cos_scaled)

subsection \<open>The predictor: classification\<close>

lemma targetOf_table: "targetOf au = spec_first_match spec_table ''Reaching Neptune/Pluto'' au"
  by (simp add: targetOf_def spec_table_def)

lemma targetOf_not_escape: "targetOf au \<noteq> ''Interstellar Space (Escape)''"
  by (simp add: targetOf_def)

lemma apoapsis_ge_launch_radius:
  assumes "specificEnergy v0 < 0"
  shows "INITIAL_RADIUS
    \<le> semiMajorAxis (specificEnergy v0)
        * (1 + eccentricity (specificEnergy v0) (angularMomentum v0 ang))"
proof -
  define c where "c = cos (ang * pi / 180)"
  define w where "w = v0 * v0"
  have w0: "0 \<le> w"
    by (simp add: w_def)
  have w10: "w < 10"
    using assms by (simp add: w_def specificEnergy_def GM_def INITIAL_RADIUS_def)
  have "\<bar>c\<bar> \<le> 1"
    unfolding c_def by (rule abs_cos_le_one)
  then have "\<bar>c\<bar> * \<bar>c\<bar> \<le> 1 * 1"
    by (intro mult_mono) simp_all
  then have c_le: "c * c \<le> 1"
    by simp
  have eq: "1 + (2 * specificEnergy v0 * angularMomentum v0 ang * angularMomentum v0 ang)
                / (GM * GM)
        = 1 - (10 - w) * w * (c * c) / 25"
    by (simp add: specificEnergy_def angularMomentum_def GM_def INITIAL_RADIUS_def c_def w_def
        field_simps)
  have nn: "0 \<le> (10 - w) * w"
    using w0 w10 by simp
  have "(10 - w) * w * (c * c) \<le> (10 - w) * w * 1"
    using nn c_le by (intro mult_left_mono) simp_all
  then have "((5 - w) / 5) * ((5 - w) / 5) \<le> 1 - (10 - w) * w * (c * c) / 25"
    by (simp add: field_simps)
  then have "sqrt (((5 - w) / 5) * ((5 - w) / 5))
      \<le> eccentricity (specificEnergy v0) (angularMomentum v0 ang)"
    unfolding eccentricity_def eq by (rule real_sqrt_le_mono)
  then have "\<bar>(5 - w) / 5\<bar> \<le> eccentricity (specificEnergy v0) (angularMomentum v0 ang)"
    by (simp only: real_sqrt_abs2)
  then have e: "(5 - w) / 5 \<le> eccentricity (specificEnergy v0) (angularMomentum v0 ang)"
    by linarith
  have a: "semiMajorAxis (specificEnergy v0) = 20 / (10 - w)"
    using w10 by (simp add: semiMajorAxis_def specificEnergy_def GM_def INITIAL_RADIUS_def
        w_def field_simps)
  have apos: "0 < 20 / (10 - w)"
    using w10 by simp
  have "20 / (10 - w) * (1 + (5 - w) / 5)
      \<le> 20 / (10 - w) * (1 + eccentricity (specificEnergy v0) (angularMomentum v0 ang))"
    using apos e by (intro mult_left_mono) simp_all
  moreover have "20 / (10 - w) * (1 + (5 - w) / 5) = 4"
    using w10 by (simp add: field_simps)
  ultimately show ?thesis
    by (simp add: a INITIAL_RADIUS_def)
qed

text \<open>
  Claim C4. For every launch speed and angle, with \<open>E = speed\<^sup>2 / 2 - GM / R0\<close>,
  \<open>h = R0 \<sqdot> speed \<sqdot> cos(angle \<sqdot> \<pi> / 180)\<close>, \<open>a = - GM / (2 E)\<close> and
  \<open>e = sqrt(1 + 2 E h\<^sup>2 / GM\<^sup>2)\<close>: the predictor returns the apoapsis \<open>Infinity\<close> and the
  escape label exactly when \<open>E \<ge> 0\<close>; otherwise it returns the finite apoapsis
  \<open>a \<sqdot> (1 + e)\<close>, expressed in AU (divided by 4), and the label that the ordered table of
  ascending thresholds gives it, the first match winning. The finite apoapsis is never
  below the launch radius.
\<close>

theorem predictor_classification:
  "trajectoryStats v0 ang =
     (let E = v0 * v0 / 2 - 20 / 4;
          h = 4 * v0 * cos (ang * pi / 180);
          a = - 20 / (2 * E);
          e = sqrt (1 + 2 * E * h * h / (20 * 20));
          apoapsis = a * (1 + e)
      in if 0 \<le> E
         then \<lparr>maxAU = Infinity, targetText = ''Interstellar Space (Escape)'', energy = E\<rparr>
         else \<lparr>maxAU = Num (apoapsis / 4),
               targetText = spec_first_match spec_table ''Reaching Neptune/Pluto'' (apoapsis / 4),
               energy = E\<rparr>) \<and>
   (maxAU (trajectoryStats v0 ang) = Infinity) = (0 \<le> v0 * v0 / 2 - 20 / 4) \<and>
   (targetText (trajectoryStats v0 ang) = ''Interstellar Space (Escape)'')
     = (0 \<le> v0 * v0 / 2 - 20 / 4) \<and>
   spec_table =
     [(1.1, ''Low Earth Orbit''), (1.4, ''High Earth Orbit''), (1.8, ''Reaching Mars''),
      (3.0, ''Asteroid Belt''), (6.0, ''Reaching Jupiter''), (12.0, ''Reaching Saturn''),
      (25.0, ''Reaching Uranus'')] \<and>
   sorted_wrt (<) (map fst spec_table) \<and>
   (v0 * v0 / 2 - 20 / 4 < 0 \<longrightarrow>
      4 \<le> - 20 / (2 * (v0 * v0 / 2 - 20 / 4))
            * (1 + sqrt (1 + 2 * (v0 * v0 / 2 - 20 / 4)
                  * (4 * v0 * cos (ang * pi / 180)) * (4 * v0 * cos (ang * pi / 180))
                  / (20 * 20)))) \<and>
   GM = 20 \<and> INITIAL_RADIUS = 4"
proof -
  have E: "specificEnergy v0 = v0 * v0 / 2 - 20 / 4"
    by (simp add: specificEnergy_def GM_def INITIAL_RADIUS_def)
  have h: "angularMomentum v0 ang = 4 * v0 * cos (ang * pi / 180)"
    by (simp add: angularMomentum_def INITIAL_RADIUS_def)
  have a: "semiMajorAxis x = - 20 / (2 * x)" for x
    by (simp add: semiMajorAxis_def GM_def)
  have e: "eccentricity x y = sqrt (1 + 2 * x * y * y / (20 * 20))" for x y
    by (simp add: eccentricity_def GM_def)
  have 1: "trajectoryStats v0 ang =
     (let E = v0 * v0 / 2 - 20 / 4;
          h = 4 * v0 * cos (ang * pi / 180);
          a = - 20 / (2 * E);
          e = sqrt (1 + 2 * E * h * h / (20 * 20));
          apoapsis = a * (1 + e)
      in if 0 \<le> E
         then \<lparr>maxAU = Infinity, targetText = ''Interstellar Space (Escape)'', energy = E\<rparr>
         else \<lparr>maxAU = Num (apoapsis / 4),
               targetText = spec_first_match spec_table ''Reaching Neptune/Pluto'' (apoapsis / 4),
               energy = E\<rparr>)"
    unfolding trajectoryStats_def targetOf_table E h a e by (simp only: Let_def)
  have 2: "(maxAU (trajectoryStats v0 ang) = Infinity) = (0 \<le> v0 * v0 / 2 - 20 / 4)"
    unfolding trajectoryStats_def E by (simp add: Let_def)
  have 3: "(targetText (trajectoryStats v0 ang) = ''Interstellar Space (Escape)'')
             = (0 \<le> v0 * v0 / 2 - 20 / 4)"
    unfolding trajectoryStats_def E using targetOf_not_escape by (simp add: Let_def)
  have 4: "sorted_wrt (<) (map fst spec_table)"
    by (simp add: spec_table_def)
  have 5: "v0 * v0 / 2 - 20 / 4 < 0 \<longrightarrow>
      4 \<le> - 20 / (2 * (v0 * v0 / 2 - 20 / 4))
            * (1 + sqrt (1 + 2 * (v0 * v0 / 2 - 20 / 4)
                  * (4 * v0 * cos (ang * pi / 180)) * (4 * v0 * cos (ang * pi / 180))
                  / (20 * 20)))"
    using apoapsis_ge_launch_radius [of v0 ang] unfolding E h a e
    by (simp only: INITIAL_RADIUS_def) simp
  show ?thesis
    by (intro conjI, rule 1, rule 2, rule 3, rule spec_table_def, rule 4, rule 5, rule GM_def,
        rule INITIAL_RADIUS_def)
qed

theorem predictor_classification_witness:
  "trajectoryStats 2.2 0
     = \<lparr>maxAU = Num 1, targetText = ''Low Earth Orbit'', energy = - 2.58\<rparr> \<and>
   trajectoryStats 3.5 0
     = \<lparr>maxAU = Infinity, targetText = ''Interstellar Space (Escape)'', energy = 1.125\<rparr> \<and>
   trajectoryStats 3 0
     = \<lparr>maxAU = Num 9, targetText = ''Reaching Saturn'', energy = - 0.5\<rparr>"
proof -
  have s1: "sqrt (16 / 15625) = 4 / 125"
    by (rule real_sqrt_unique) (simp_all add: power2_eq_square)
  have s2: "sqrt (16 / 25) = 4 / 5"
    by (rule real_sqrt_unique) (simp_all add: power2_eq_square)
  have 1: "trajectoryStats 2.2 0
     = \<lparr>maxAU = Num 1, targetText = ''Low Earth Orbit'', energy = - 2.58\<rparr>"
    using predictor_classification [of "2.2" 0, THEN conjunct1]
    by (simp add: Let_def s1 spec_table_def)
  have 2: "trajectoryStats 3.5 0
     = \<lparr>maxAU = Infinity, targetText = ''Interstellar Space (Escape)'', energy = 1.125\<rparr>"
    using predictor_classification [of "3.5" 0, THEN conjunct1]
    by (simp add: Let_def)
  have 3: "trajectoryStats 3 0
     = \<lparr>maxAU = Num 9, targetText = ''Reaching Saturn'', energy = - 0.5\<rparr>"
    using predictor_classification [of 3 0, THEN conjunct1]
    by (simp add: Let_def s2 spec_table_def)
  show ?thesis
    using 1 2 3 by simp
qed

subsection \<open>The predictor: eccentricity in exact arithmetic\<close>

text \<open>
  The source computes the eccentricity in double precision, by \<^verbatim>\<open>Math.sqrt\<close> of the term as
  computed, and applies no clamp to it. The facts of this subsection are about the formula
  over the real numbers; they say nothing about its rounding.
\<close>

lemma self_mult_pos: "x \<noteq> 0 \<Longrightarrow> 0 < x * x" for x :: real
  using zero_less_power2 [of x] by (simp add: power2_eq_square)

lemma radicand_bounds:
  assumes "specificEnergy v0 < 0" "v0 \<noteq> 0" "cos (ang * pi / 180) \<noteq> 0"
  shows "0 \<le> 1 + (2 * specificEnergy v0 * angularMomentum v0 ang * angularMomentum v0 ang)
                / (GM * GM)"
    and "1 + (2 * specificEnergy v0 * angularMomentum v0 ang * angularMomentum v0 ang)
                / (GM * GM) < 1"
proof -
  define c where "c = cos (ang * pi / 180)"
  define w where "w = v0 * v0"
  have w0: "0 < w"
    unfolding w_def using assms(2) by (rule self_mult_pos)
  have w10: "w < 10"
    using assms(1) by (simp add: w_def specificEnergy_def GM_def INITIAL_RADIUS_def)
  have c_pos: "0 < c * c"
    unfolding c_def using assms(3) by (rule self_mult_pos)
  have "\<bar>c\<bar> \<le> 1"
    unfolding c_def by (rule abs_cos_le_one)
  then have "\<bar>c\<bar> * \<bar>c\<bar> \<le> 1 * 1"
    by (intro mult_mono) simp_all
  then have c_le: "c * c \<le> 1"
    by simp
  have eq: "1 + (2 * specificEnergy v0 * angularMomentum v0 ang * angularMomentum v0 ang)
                / (GM * GM)
        = 1 - (10 - w) * w * (c * c) / 25"
    by (simp add: specificEnergy_def angularMomentum_def GM_def INITIAL_RADIUS_def c_def w_def
        field_simps)
  have pos: "0 < (10 - w) * w"
    using w0 w10 by simp
  have "(w - 5) * (w - 5) \<ge> 0"
    by simp
  then have le25: "(10 - w) * w \<le> 25"
    by (simp add: algebra_simps)
  have "(10 - w) * w * (c * c) \<le> 25 * 1"
    using le25 c_le c_pos pos by (intro mult_mono) simp_all
  then show "0 \<le> 1 + (2 * specificEnergy v0 * angularMomentum v0 ang * angularMomentum v0 ang)
                / (GM * GM)"
    unfolding eq by simp
  have "0 < (10 - w) * w * (c * c)"
    using pos c_pos by simp
  then show "1 + (2 * specificEnergy v0 * angularMomentum v0 ang * angularMomentum v0 ang)
                / (GM * GM) < 1"
    unfolding eq by simp
qed

text \<open>Every angle the slider can give (-45 to 45 degrees) has a cosine other than 0.\<close>

lemma slider_angle_cos:
  "- 45 \<le> ang \<Longrightarrow> ang \<le> 45 \<Longrightarrow> cos (ang * pi / 180) \<noteq> 0" for ang :: real
proof -
  assume a: "- 45 \<le> ang" "ang \<le> 45"
  define t where "t = ang * pi"
  have l: "(- 45) * pi \<le> t"
    unfolding t_def using a(1) by (intro mult_right_mono) simp_all
  have u: "t \<le> 45 * pi"
    unfolding t_def using a(2) by (intro mult_right_mono) simp_all
  have "- (pi / 2) < t / 180" "t / 180 < pi / 2"
    using l u pi_gt_zero by linarith+
  then have "0 < cos (t / 180)"
    by (rule cos_gt_zero_pi)
  then show ?thesis
    by (simp add: t_def)
qed

text \<open>
  In exact arithmetic, with \<open>E < 0\<close>, a launch speed other than 0 and an angle whose
  cosine is not 0, the term under the square root is not negative and the eccentricity
  lies within \<open>[0, 1)\<close>.
\<close>

lemma eccentricity_exact_range:
  assumes "specificEnergy v0 < 0" "v0 \<noteq> 0" "cos (ang * pi / 180) \<noteq> 0"
  shows "0 \<le> 1 + (2 * specificEnergy v0 * angularMomentum v0 ang * angularMomentum v0 ang)
                 / (GM * GM) \<and>
         0 \<le> eccentricity (specificEnergy v0) (angularMomentum v0 ang) \<and>
         eccentricity (specificEnergy v0) (angularMomentum v0 ang) < 1"
  using radicand_bounds [OF assms] unfolding eccentricity_def by simp

subsection \<open>Reset and parameter changes\<close>

lemma handleReset_explicit:
  "handleReset s =
     \<lparr>running = False, speed = speed s, angle = angle s, resetCount = resetCount s + 1,
      status = IDLE, satPos = Vector3 INITIAL_RADIUS 0 0,
      satVel = Vector3 (sin (angle s * pi / 180) * speed s) 0
                 (- cos (angle s * pi / 180) * speed s),
      trail = [Vector3 INITIAL_RADIUS 0 0], crashed = False\<rparr>"
  by (simp add: handleReset_def resetEffect_def Let_def)

text \<open>
  Claim C7, as stated, fails: after a reset the trail is not of length zero, it holds the
  launch point.
\<close>

theorem reset_trail_not_empty:
  "length (trail (handleReset mounted)) \<noteq> 0"
  by (simp add: handleReset_explicit)

text \<open>
  Claim C7, amended. A reset from any state yields the state that depends on nothing but
  the current launch speed and angle (and the reset counter): run stopped, status
  \<open>IDLE\<close>, crash flag cleared, position \<open>(R0, 0, 0)\<close>, the launch velocity, and a trail
  that holds exactly one point, the launch point. A second reset changes nothing but the
  reset counter.
\<close>

theorem reset_state:
  "handleReset s =
     \<lparr>running = False, speed = speed s, angle = angle s, resetCount = resetCount s + 1,
      status = IDLE, satPos = Vector3 INITIAL_RADIUS 0 0,
      satVel = Vector3 (sin (angle s * pi / 180) * speed s) 0
                 (- cos (angle s * pi / 180) * speed s),
      trail = [Vector3 INITIAL_RADIUS 0 0], crashed = False\<rparr> \<and>
   length_v (satPos (handleReset s)) = INITIAL_RADIUS \<and>
   length (trail (handleReset s)) = 1 \<and>
   handleReset (handleReset s) = (handleReset s)\<lparr>resetCount := resetCount s + 2\<rparr>"
  by (simp add: handleReset_explicit length_v_axis INITIAL_RADIUS_def)

text \<open>
  Claim C8, as stated, fails: after a parameter change the trail is not cleared, it holds
  the launch point. Here the lab is launched from its mounted state and the speed slider
  is then moved to 3.
\<close>

theorem parameter_change_keeps_launch_point:
  "status (handlePlay mounted) = ORBITING \<and>
   trail (onChangeSpeed 3 (handlePlay mounted)) = [Vector3 4 0 0] \<and>
   trail (onChangeSpeed 3 (handlePlay mounted)) \<noteq> []"
  by (simp add: onChangeSpeed_def handleReset_explicit handlePlay_def mounted_def
      resetEffect_def Let_def INITIAL_RADIUS_def)

text \<open>
  Claim C8, amended. A change of the launch speed or of the launch angle, in any state of
  the run, stores the new value and resets: the run stops, the status is \<open>IDLE\<close>, the crash
  flag is cleared, the satellite is at the launch point with the launch velocity of the new
  parameters, and the trail is reset to hold exactly one point, the launch point, every
  recorded point being dropped.
\<close>

theorem parameter_change_resets:
  "onChangeSpeed v s =
     \<lparr>running = False, speed = v, angle = angle s, resetCount = resetCount s + 1,
      status = IDLE, satPos = Vector3 INITIAL_RADIUS 0 0,
      satVel = Vector3 (sin (angle s * pi / 180) * v) 0 (- cos (angle s * pi / 180) * v),
      trail = [Vector3 INITIAL_RADIUS 0 0], crashed = False\<rparr> \<and>
   onChangeAngle v s =
     \<lparr>running = False, speed = speed s, angle = v, resetCount = resetCount s + 1,
      status = IDLE, satPos = Vector3 INITIAL_RADIUS 0 0,
      satVel = Vector3 (sin (v * pi / 180) * speed s) 0 (- cos (v * pi / 180) * speed s),
      trail = [Vector3 INITIAL_RADIUS 0 0], crashed = False\<rparr>"
  by (simp add: onChangeSpeed_def onChangeAngle_def handleReset_explicit)

subsection \<open>The frame callback: the loop\<close>

lemma length_v_nonneg: "0 \<le> length_v p"
  by (simp add: length_v_def)

lemma length_v_multiplyScalar: "length_v (multiplyScalar p k) = \<bar>k\<bar> * length_v p"
proof -
  have "vecx p * k * (vecx p * k) + vecy p * k * (vecy p * k) + vecz p * k * (vecz p * k)
        = (k * k) * (vecx p * vecx p + vecy p * vecy p + vecz p * vecz p)"
    by (simp add: algebra_simps)
  then show ?thesis
    by (simp add: length_v_def multiplyScalar_def real_sqrt_mult)
qed

lemma gravity_spec:
  assumes "length_v p \<noteq> 0"
  shows "gravity p (length_v p) = spec_accel p"
  using assms
  by (simp add: gravity_def spec_accel_def multiplyScalar_def negate_def normalize_v_def
      divideScalar_def power2_eq_square)

lemma gravity_direction:
  assumes "length_v p \<noteq> 0"
  shows "gravity p (length_v p) = multiplyScalar p (- (GM / (length_v p) ^ 3))"
  using assms
  by (simp add: gravity_def multiplyScalar_def negate_def normalize_v_def
      divideScalar_def power3_eq_cube)

lemma gravity_magnitude:
  assumes "length_v p \<noteq> 0"
  shows "length_v (gravity p (length_v p)) = GM / (length_v p)\<^sup>2"
proof -
  have pos: "0 < length_v p"
    using assms length_v_nonneg [of p] by simp
  have "length_v (gravity p (length_v p)) = \<bar>- (GM / (length_v p) ^ 3)\<bar> * length_v p"
    by (simp only: gravity_direction [OF assms] length_v_multiplyScalar)
  also have "\<dots> = GM / (length_v p) ^ 3 * length_v p"
    using pos by (simp add: GM_def)
  also have "\<dots> = GM / (length_v p)\<^sup>2"
    using pos by (simp add: power3_eq_cube power2_eq_square)
  finally show ?thesis .
qed

lemma accel_facts:
  assumes "PLANET_RADIUS + 0.1 \<le> length_v p"
  shows "gravity p (length_v p) = spec_accel p \<and>
         length_v (spec_accel p) = GM / (length_v p)\<^sup>2 \<and>
         spec_accel p = multiplyScalar p (- (GM / (length_v p) ^ 3))"
proof -
  have nz: "length_v p \<noteq> 0"
    using assms by (simp add: PLANET_RADIUS_def)
  show ?thesis
    using gravity_spec [OF nz] gravity_magnitude [OF nz] gravity_direction [OF nz] by simp
qed

lemma loopBody_crash:
  assumes "length_v (satPos s) < PLANET_RADIUS + 0.1"
  shows "loopBody h s = Returned (s\<lparr>status := CRASH, crashed := True\<rparr>, [CrashEvent])"
  using assms by (simp add: loopBody_def onCrash_def)

lemma loopBody_continue:
  assumes "PLANET_RADIUS + 0.1 \<le> length_v (satPos s)"
  shows "loopBody h s =
      Continued (s\<lparr>status := (if 60 < length_v (satPos s) then ESCAPE else status s),
                   satPos := fst (spec_substep h (satPos s, satVel s)),
                   satVel := snd (spec_substep h (satPos s, satVel s))\<rparr>,
                 if 60 < length_v (satPos s) then [EscapeEvent] else [])"
proof -
  have nz: "length_v (satPos s) \<noteq> 0"
    using assms by (simp add: PLANET_RADIUS_def)
  have nc: "\<not> length_v (satPos s) < PLANET_RADIUS + 0.1"
    using assms by simp
  show ?thesis
    unfolding loopBody_def Let_def
    by (simp add: nc onEscape_def spec_substep_def gravity_spec [OF nz] Let_def del: One_nat_def)
qed

lemma forLoop_add:
  "forLoop (a + b) h s evs =
     (case forLoop a h s evs of
        Returned res \<Rightarrow> Returned res
      | Continued (s', evs') \<Rightarrow> forLoop b h s' evs')"
  by (induction a arbitrary: s evs) (auto split: outcome.splits)

lemma forLoop_no_crash:
  assumes "\<forall>i<n. PLANET_RADIUS + 0.1
             \<le> length_v (fst ((spec_substep h ^^ i) (satPos s, satVel s)))"
  shows "forLoop n h s evs =
     Continued
       (s\<lparr>status := (if filter (\<lambda>i. 60 < length_v (fst ((spec_substep h ^^ i)
                            (satPos s, satVel s)))) [0..<n] = []
                       then status s else ESCAPE),
           satPos := fst ((spec_substep h ^^ n) (satPos s, satVel s)),
           satVel := snd ((spec_substep h ^^ n) (satPos s, satVel s))\<rparr>,
        evs @ map (\<lambda>_. EscapeEvent)
          (filter (\<lambda>i. 60 < length_v (fst ((spec_substep h ^^ i) (satPos s, satVel s))))
             [0..<n]))"
  using assms
proof (induction n)
  case 0
  show ?case by simp
next
  case (Suc n)
  define pv where "pv = (spec_substep h ^^ n) (satPos s, satVel s)"
  define esc where "esc = filter (\<lambda>i. 60 < length_v (fst ((spec_substep h ^^ i)
                            (satPos s, satVel s)))) [0..<n]"
  define sn where "sn = s\<lparr>status := (if esc = [] then status s else ESCAPE),
           satPos := fst pv, satVel := snd pv\<rparr>"
  have prev: "forLoop n h s evs = Continued (sn, evs @ map (\<lambda>_. EscapeEvent) esc)"
    using Suc by (simp add: sn_def pv_def esc_def)
  have ok: "PLANET_RADIUS + 0.1 \<le> length_v (satPos sn)"
    using Suc.prems by (simp add: sn_def pv_def)
  have "forLoop (Suc n) h s evs = forLoop (n + 1) h s evs"
    by simp
  also have "\<dots> = forLoop 1 h sn (evs @ map (\<lambda>_. EscapeEvent) esc)"
    by (simp only: forLoop_add prev outcome.case prod.case)
  also have "\<dots> = Continued
       (sn\<lparr>status := (if 60 < length_v (satPos sn) then ESCAPE else status sn),
            satPos := fst (spec_substep h (satPos sn, satVel sn)),
            satVel := snd (spec_substep h (satPos sn, satVel sn))\<rparr>,
        (evs @ map (\<lambda>_. EscapeEvent) esc)
          @ (if 60 < length_v (satPos sn) then [EscapeEvent] else []))"
    by (simp add: loopBody_continue [OF ok])
  finally show ?case
    by (simp add: sn_def pv_def esc_def)
qed

lemma forLoop_crash:
  assumes "i < n"
    and "\<forall>j<i. PLANET_RADIUS + 0.1
             \<le> length_v (fst ((spec_substep h ^^ j) (satPos s, satVel s)))"
    and "length_v (fst ((spec_substep h ^^ i) (satPos s, satVel s))) < PLANET_RADIUS + 0.1"
  shows "forLoop n h s evs =
     Returned
       (s\<lparr>status := CRASH,
           satPos := fst ((spec_substep h ^^ i) (satPos s, satVel s)),
           satVel := snd ((spec_substep h ^^ i) (satPos s, satVel s)),
           crashed := True\<rparr>,
        evs @ map (\<lambda>_. EscapeEvent)
          (filter (\<lambda>j. 60 < length_v (fst ((spec_substep h ^^ j) (satPos s, satVel s))))
             [0..<i]) @ [CrashEvent])"
proof -
  define pv where "pv = (spec_substep h ^^ i) (satPos s, satVel s)"
  define esc where "esc = filter (\<lambda>j. 60 < length_v (fst ((spec_substep h ^^ j)
                            (satPos s, satVel s)))) [0..<i]"
  define si where "si = s\<lparr>status := (if esc = [] then status s else ESCAPE),
           satPos := fst pv, satVel := snd pv\<rparr>"
  obtain k where "n = Suc (i + k)"
    using assms(1) less_imp_Suc_add by blast
  then have n: "n = i + Suc k"
    by simp
  have prev: "forLoop i h s evs = Continued (si, evs @ map (\<lambda>_. EscapeEvent) esc)"
    using forLoop_no_crash [OF assms(2)] by (simp add: si_def pv_def esc_def)
  have low: "length_v (satPos si) < PLANET_RADIUS + 0.1"
    using assms(3) by (simp add: si_def pv_def)
  have "forLoop n h s evs = forLoop (Suc k) h si (evs @ map (\<lambda>_. EscapeEvent) esc)"
    by (simp only: n forLoop_add prev outcome.case prod.case)
  also have "\<dots> = Returned (si\<lparr>status := CRASH, crashed := True\<rparr>,
        (evs @ map (\<lambda>_. EscapeEvent) esc) @ [CrashEvent])"
    by (simp add: loopBody_crash [OF low])
  finally show ?thesis
    by (simp add: si_def pv_def esc_def)
qed

lemma useFrame_idle: "\<not> running s \<or> crashed s \<Longrightarrow> useFrame delta s = (s, [])"
  by (simp add: useFrame_def)

lemma frames_after_crash: "crashed s \<Longrightarrow> run (map Frame ds) s = s"
  by (induction ds) (simp_all add: useFrame_idle)

lemma play_when_running: "running s \<Longrightarrow> handlePlay s = s"
  by (simp add: handlePlay_def)

lemma useFrame_active:
  assumes "running s" and "\<not> crashed s"
  shows "useFrame delta s =
     (case forLoop 4 (delta / 4) s [] of
        Returned res \<Rightarrow> res
      | Continued (s', evs) \<Rightarrow> (s'\<lparr>trail := updateTrail (trail s') (satPos s')\<rparr>, evs))"
  using assms by (simp add: useFrame_def)

lemma useFrame_no_crash:
  assumes "running s" and "\<not> crashed s"
    and "\<forall>i<4. PLANET_RADIUS + 0.1
            \<le> length_v (fst ((spec_substep (delta / 4) ^^ i) (satPos s, satVel s)))"
  shows "satPos (fst (useFrame delta s))
           = fst ((spec_substep (delta / 4) ^^ 4) (satPos s, satVel s))"
    and "\<not> crashed (fst (useFrame delta s))"
proof -
  have loop: "forLoop 4 (delta / 4) s [] = Continued
       (s\<lparr>status := (if filter (\<lambda>i. 60 < length_v (fst ((spec_substep (delta / 4) ^^ i)
                            (satPos s, satVel s)))) [0..<4] = []
                       then status s else ESCAPE),
           satPos := fst ((spec_substep (delta / 4) ^^ 4) (satPos s, satVel s)),
           satVel := snd ((spec_substep (delta / 4) ^^ 4) (satPos s, satVel s))\<rparr>,
        [] @ map (\<lambda>_. EscapeEvent)
          (filter (\<lambda>i. 60 < length_v (fst ((spec_substep (delta / 4) ^^ i) (satPos s, satVel s))))
             [0..<4]))"
    by (rule forLoop_no_crash [OF assms(3)])
  show "satPos (fst (useFrame delta s))
           = fst ((spec_substep (delta / 4) ^^ 4) (satPos s, satVel s))"
    by (simp add: useFrame_active [OF assms(1,2)] loop del: funpow.simps)
  show "\<not> crashed (fst (useFrame delta s))"
    using assms(2) by (simp add: useFrame_active [OF assms(1,2)] loop del: funpow.simps)
qed

subsection \<open>Motion along the x axis\<close>

lemma all_less_4: "(\<forall>i<4. P i) = (P 0 \<and> P 1 \<and> P 2 \<and> P (3::nat))"
proof -
  have "(i < 4) = (i = 0 \<or> i = 1 \<or> i = 2 \<or> i = 3)" for i :: nat
    by arith
  then show ?thesis
    by auto
qed

lemma all_less_2: "(\<forall>i<2. P i) = (P 0 \<and> P (1::nat))"
proof -
  have "(i < 2) = (i = 0 \<or> i = 1)" for i :: nat
    by arith
  then show ?thesis
    by auto
qed

lemma spec_accel_axis:
  assumes "0 < x"
  shows "spec_accel (Vector3 x 0 0) = Vector3 (- (GM / (x * x))) 0 0"
  using assms
  by (simp add: spec_accel_def length_v_axis multiplyScalar_def divideScalar_def power2_eq_square)

lemma spec_substep_axis:
  assumes "0 < x"
  shows "spec_substep h (Vector3 x 0 0, Vector3 u 0 0)
           = (Vector3 (x + (u - GM / (x * x) * h) * h) 0 0, Vector3 (u - GM / (x * x) * h) 0 0)"
  by (simp add: spec_substep_def spec_accel_axis [OF assms] add_v_def multiplyScalar_def Let_def)

lemma spec_substep_axis_neg:
  assumes "x < 0"
  shows "spec_substep h (Vector3 x 0 0, Vector3 u 0 0)
           = (Vector3 (x + (u + GM / (x * x) * h) * h) 0 0, Vector3 (u + GM / (x * x) * h) 0 0)"
  using assms
  by (simp add: spec_substep_def spec_accel_def length_v_axis add_v_def multiplyScalar_def
      divideScalar_def Let_def power2_eq_square)

lemma funpow_2_step: "(f ^^ 2) x = f (f x)" for f :: "'a \<Rightarrow> 'a"
  by (simp add: numeral_2_eq_2)

lemma funpow_3_step: "(f ^^ 3) x = f ((f ^^ 2) x)" for f :: "'a \<Rightarrow> 'a"
  by (simp add: numeral_3_eq_3 numeral_2_eq_2)

lemma funpow_4_step: "(f ^^ 4) x = f ((f ^^ 3) x)" for f :: "'a \<Rightarrow> 'a"
proof -
  have "(4::nat) = Suc 3" by simp
  then show ?thesis by (simp only: funpow.simps o_apply)
qed

lemma fall_1:
  "spec_substep 1 (Vector3 4 0 0, Vector3 1 0 0)
     = (Vector3 (15 / 4) 0 0, Vector3 (- (1 / 4)) 0 0)"
  by (simp add: spec_substep_axis GM_def)

lemma fall_2:
  "(spec_substep 1 ^^ 2) (Vector3 4 0 0, Vector3 1 0 0)
     = (Vector3 (187 / 90) 0 0, Vector3 (- (301 / 180)) 0 0)"
  unfolding funpow_2_step fall_1 by (simp add: spec_substep_axis GM_def)

lemma fall_3:
  "(spec_substep 1 ^^ 3) (Vector3 4 0 0, Vector3 1 0 0)
     = (Vector3 (- (26607263 / 6294420)) 0 0, Vector3 (- (39685669 / 6294420)) 0 0)"
  unfolding funpow_3_step fall_2 by (simp add: spec_substep_axis GM_def)

lemma fall_4:
  "(spec_substep 1 ^^ 4) (Vector3 4 0 0, Vector3 1 0 0)
     = (Vector3 (- (3495348495077454406459 / 371342688187740431415)) 0 0,
        Vector3 (- (23107664706163034937061 / 4456112258252885176980)) 0 0)"
  unfolding funpow_4_step fall_3 by (simp add: spec_substep_axis_neg GM_def)

lemma fall_prefix_ok:
  "\<forall>j<2. PLANET_RADIUS + 0.1
      \<le> length_v (fst ((spec_substep (4 / 4) ^^ j) (satPos radial_fall, satVel radial_fall)))"
  by (simp add: all_less_2 radial_fall_def fall_1 length_v_axis PLANET_RADIUS_def)

lemma fall_impact:
  "length_v (fst ((spec_substep (4 / 4) ^^ 2) (satPos radial_fall, satVel radial_fall)))
     < PLANET_RADIUS + 0.1"
  by (simp add: radial_fall_def fall_2 length_v_axis PLANET_RADIUS_def)

lemma escape_1:
  "spec_substep 1 (Vector3 59 0 0, Vector3 4 0 0)
     = (Vector3 (219283 / 3481) 0 0, Vector3 (13904 / 3481) 0 0)"
  by (simp add: spec_substep_axis GM_def)

lemma escape_2:
  "(spec_substep 1 ^^ 2) (Vector3 59 0 0, Vector3 4 0 0)
     = (Vector3 (11211961233438823 / 167384003663809) 0 0,
        Vector3 (667730703300636 / 167384003663809) 0 0)"
  unfolding funpow_2_step escape_1 by (simp add: spec_substep_axis GM_def)

lemma escape_3:
  "(spec_substep 1 ^^ 3) (Vector3 59 0 0, Vector3 4 0 0)
     = (Vector3 (1493279408090874894729621350949585806562762474431
                  / 21041520836177774511423322798901195133233018161) 0 0,
        Vector3 (83845347822729432205042588875330310725387726664
                  / 21041520836177774511423322798901195133233018161) 0 0)"
  unfolding funpow_3_step escape_2 by (simp add: spec_substep_axis GM_def)

lemma escape_no_crash:
  "\<forall>i<4. PLANET_RADIUS + 0.1
      \<le> length_v (fst ((spec_substep (4 / 4) ^^ i) (satPos radial_escape, satVel radial_escape)))"
  by (simp add: all_less_4 radial_escape_def escape_1 escape_2 escape_3 length_v_axis
      PLANET_RADIUS_def)

lemma escape_filter:
  "filter (\<lambda>i. 60 < length_v (fst ((spec_substep (4 / 4) ^^ i)
                (satPos radial_escape, satVel radial_escape)))) [0..<4] = [1, 2, 3]"
proof -
  have "[0..<4] = [0, 1, 2, 3]"
    by code_simp
  then show ?thesis
    by (simp add: radial_escape_def escape_1 escape_2 escape_3 length_v_axis)
qed

lemma escape_4_far:
  "\<exists>X. fst ((spec_substep 1 ^^ 4) (Vector3 59 0 0, Vector3 4 0 0)) = Vector3 X 0 0
        \<and> 59.2 < X"
proof -
  define x3 :: real where "x3 = 1493279408090874894729621350949585806562762474431
                  / 21041520836177774511423322798901195133233018161"
  define u3 :: real where "u3 = 83845347822729432205042588875330310725387726664
                  / 21041520836177774511423322798901195133233018161"
  have 3: "(spec_substep 1 ^^ 3) (Vector3 59 0 0, Vector3 4 0 0)
             = (Vector3 x3 0 0, Vector3 u3 0 0)"
    unfolding x3_def u3_def by (rule escape_3)
  have pos: "0 < x3"
    by (simp add: x3_def)
  have "fst ((spec_substep 1 ^^ 4) (Vector3 59 0 0, Vector3 4 0 0))
          = Vector3 (x3 + (u3 - GM / (x3 * x3) * 1) * 1) 0 0"
    by (simp only: funpow_4_step 3 spec_substep_axis [OF pos] fst_conv)
  moreover have "59.2 < x3 + (u3 - GM / (x3 * x3) * 1) * 1"
    by (simp add: x3_def u3_def GM_def)
  ultimately show ?thesis
    by blast
qed

subsection \<open>The frame callback: integration\<close>

text \<open>
  Claim C1, as stated, fails: not every frame of a running, not crashed lab applies 4
  sub-steps. The first example state is running and not crashed; with \<open>delta = 4\<close> its
  third sub-step finds \<open>r = 187 / 90 < 2.1\<close> and returns, so the frame leaves position and
  velocity as 2 sub-steps made them, which is not what 4 sub-steps give.
\<close>

theorem crash_cuts_the_frame_short:
  "running radial_fall \<and> \<not> crashed radial_fall \<and>
   (satPos (fst (useFrame 4 radial_fall)), satVel (fst (useFrame 4 radial_fall)))
     = (spec_substep (4 / 4) ^^ 2) (satPos radial_fall, satVel radial_fall) \<and>
   (satPos (fst (useFrame 4 radial_fall)), satVel (fst (useFrame 4 radial_fall)))
     \<noteq> (spec_substep (4 / 4) ^^ 4) (satPos radial_fall, satVel radial_fall)"
proof -
  have r: "running radial_fall" and c: "\<not> crashed radial_fall"
    by (simp_all add: radial_fall_def)
  have i: "(2::nat) < 4"
    by simp
  have loop: "forLoop 4 (4 / 4) radial_fall [] = Returned
       (radial_fall\<lparr>status := CRASH,
           satPos := fst ((spec_substep (4 / 4) ^^ 2) (satPos radial_fall, satVel radial_fall)),
           satVel := snd ((spec_substep (4 / 4) ^^ 2) (satPos radial_fall, satVel radial_fall)),
           crashed := True\<rparr>,
        [] @ map (\<lambda>_. EscapeEvent)
          (filter (\<lambda>j. 60 < length_v (fst ((spec_substep (4 / 4) ^^ j)
               (satPos radial_fall, satVel radial_fall)))) [0..<2]) @ [CrashEvent])"
    by (rule forLoop_crash [OF i fall_prefix_ok fall_impact])
  have 1: "(satPos (fst (useFrame 4 radial_fall)), satVel (fst (useFrame 4 radial_fall)))
     = (spec_substep (4 / 4) ^^ 2) (satPos radial_fall, satVel radial_fall)"
    unfolding useFrame_active [OF r c] loop by (simp del: funpow.simps)
  have 2: "(spec_substep (4 / 4) ^^ 2) (satPos radial_fall, satVel radial_fall)
     \<noteq> (spec_substep (4 / 4) ^^ 4) (satPos radial_fall, satVel radial_fall)"
    by (simp add: radial_fall_def fall_2 fall_4)
  show ?thesis
    using r c 1 2 by simp
qed

text \<open>
  Claim C1, amended. In a frame of a running, not crashed lab the elapsed time \<open>delta\<close> is
  cut into sub-steps of \<open>delta / 4\<close>. When no sub-step finds \<open>r < R_body + 0.1 = 2.1\<close>, the
  position and velocity after the frame are those of exactly 4 sub-steps of the
  specification, each updating the velocity by \<open>acceleration \<sqdot> sub_dt\<close> first and then the
  position by the new velocity. When sub-step \<open>i < 4\<close> is the first to find \<open>r < 2.1\<close>, they
  are those of the \<open>i\<close> sub-steps before it, and the lab is crashed. In each sub-step that is
  applied, the acceleration the source computes is the specification's, has the magnitude
  \<open>GM / r\<^sup>2\<close> and is the position scaled by the negative factor \<open>- GM / r\<^sup>3\<close>, that is,
  directed toward the centre.
\<close>

theorem frame_integration:
  assumes "running s" and "\<not> crashed s" and "i \<le> 4"
    and "\<forall>j<i. PLANET_RADIUS + 0.1
            \<le> length_v (fst ((spec_substep (delta / 4) ^^ j) (satPos s, satVel s)))"
    and "i = 4 \<or> length_v (fst ((spec_substep (delta / 4) ^^ i) (satPos s, satVel s)))
            < PLANET_RADIUS + 0.1"
  shows "(satPos (fst (useFrame delta s)), satVel (fst (useFrame delta s)))
           = (spec_substep (delta / 4) ^^ i) (satPos s, satVel s) \<and>
         crashed (fst (useFrame delta s)) = (i < 4) \<and>
         (\<forall>j<i. gravity (fst ((spec_substep (delta / 4) ^^ j) (satPos s, satVel s)))
                         (length_v (fst ((spec_substep (delta / 4) ^^ j) (satPos s, satVel s))))
                   = spec_accel (fst ((spec_substep (delta / 4) ^^ j) (satPos s, satVel s))) \<and>
                 length_v (spec_accel (fst ((spec_substep (delta / 4) ^^ j) (satPos s, satVel s))))
                   = GM / (length_v (fst ((spec_substep (delta / 4) ^^ j)
                                              (satPos s, satVel s))))\<^sup>2 \<and>
                 spec_accel (fst ((spec_substep (delta / 4) ^^ j) (satPos s, satVel s)))
                   = multiplyScalar (fst ((spec_substep (delta / 4) ^^ j) (satPos s, satVel s)))
                       (- (GM / (length_v (fst ((spec_substep (delta / 4) ^^ j)
                                                  (satPos s, satVel s)))) ^ 3))) \<and>
         PLANET_RADIUS + 0.1 = 2.1 \<and> GM = 20"
proof -
  have facts: "\<forall>j<i. gravity (fst ((spec_substep (delta / 4) ^^ j) (satPos s, satVel s)))
                         (length_v (fst ((spec_substep (delta / 4) ^^ j) (satPos s, satVel s))))
                   = spec_accel (fst ((spec_substep (delta / 4) ^^ j) (satPos s, satVel s))) \<and>
                 length_v (spec_accel (fst ((spec_substep (delta / 4) ^^ j) (satPos s, satVel s))))
                   = GM / (length_v (fst ((spec_substep (delta / 4) ^^ j)
                                              (satPos s, satVel s))))\<^sup>2 \<and>
                 spec_accel (fst ((spec_substep (delta / 4) ^^ j) (satPos s, satVel s)))
                   = multiplyScalar (fst ((spec_substep (delta / 4) ^^ j) (satPos s, satVel s)))
                       (- (GM / (length_v (fst ((spec_substep (delta / 4) ^^ j)
                                                  (satPos s, satVel s)))) ^ 3))"
    using assms(4) accel_facts by blast
  have nums: "PLANET_RADIUS + 0.1 = 2.1 \<and> GM = 20"
    by (simp add: PLANET_RADIUS_def GM_def)
  have main: "(satPos (fst (useFrame delta s)), satVel (fst (useFrame delta s)))
           = (spec_substep (delta / 4) ^^ i) (satPos s, satVel s) \<and>
         crashed (fst (useFrame delta s)) = (i < 4)"
  proof (cases "i = 4")
    case True
    have loop: "forLoop 4 (delta / 4) s [] = Continued
       (s\<lparr>status := (if filter (\<lambda>i. 60 < length_v (fst ((spec_substep (delta / 4) ^^ i)
                            (satPos s, satVel s)))) [0..<4] = []
                       then status s else ESCAPE),
           satPos := fst ((spec_substep (delta / 4) ^^ 4) (satPos s, satVel s)),
           satVel := snd ((spec_substep (delta / 4) ^^ 4) (satPos s, satVel s))\<rparr>,
        [] @ map (\<lambda>_. EscapeEvent)
          (filter (\<lambda>i. 60 < length_v (fst ((spec_substep (delta / 4) ^^ i) (satPos s, satVel s))))
             [0..<4]))"
      using forLoop_no_crash [of 4 "delta / 4" s "[]"] assms(4) True by blast
    show ?thesis
      unfolding True useFrame_active [OF assms(1,2)] loop
      using assms(2) by (simp del: funpow.simps)
  next
    case False
    then have i4: "i < 4"
      using assms(3) by simp
    have low: "length_v (fst ((spec_substep (delta / 4) ^^ i) (satPos s, satVel s)))
            < PLANET_RADIUS + 0.1"
      using assms(5) False by blast
    have loop: "forLoop 4 (delta / 4) s [] = Returned
       (s\<lparr>status := CRASH,
           satPos := fst ((spec_substep (delta / 4) ^^ i) (satPos s, satVel s)),
           satVel := snd ((spec_substep (delta / 4) ^^ i) (satPos s, satVel s)),
           crashed := True\<rparr>,
        [] @ map (\<lambda>_. EscapeEvent)
          (filter (\<lambda>j. 60 < length_v (fst ((spec_substep (delta / 4) ^^ j) (satPos s, satVel s))))
             [0..<i]) @ [CrashEvent])"
      by (rule forLoop_crash [OF i4 assms(4) low])
    show ?thesis
      unfolding useFrame_active [OF assms(1,2)] loop
      using i4 by simp
  qed
  show ?thesis
    by (intro conjI, rule main [THEN conjunct1], rule main [THEN conjunct2], rule facts,
        rule nums [THEN conjunct1], rule nums [THEN conjunct2])
qed

theorem frame_integration_witness:
  "running radial_escape \<and> \<not> crashed radial_escape \<and>
   PLANET_RADIUS + 0.1 \<le> length_v (satPos radial_escape) \<and>
   (satPos (fst (useFrame 4 radial_escape)), satVel (fst (useFrame 4 radial_escape)))
     = spec_substep 1 (Vector3 (1493279408090874894729621350949585806562762474431
                  / 21041520836177774511423322798901195133233018161) 0 0,
        Vector3 (83845347822729432205042588875330310725387726664
                  / 21041520836177774511423322798901195133233018161) 0 0) \<and>
   \<not> crashed (fst (useFrame 4 radial_escape)) \<and>
   length_v (spec_accel (satPos radial_escape)) = 20 / 3481 \<and>
   running radial_fall \<and> \<not> crashed radial_fall \<and>
   (satPos (fst (useFrame 4 radial_fall)), satVel (fst (useFrame 4 radial_fall)))
     = (Vector3 (187 / 90) 0 0, Vector3 (- (301 / 180)) 0 0) \<and>
   crashed (fst (useFrame 4 radial_fall))"
proof -
  have r: "running radial_escape" and c: "\<not> crashed radial_escape"
    by (simp_all add: radial_escape_def)
  have i: "(4::nat) \<le> 4"
    by simp
  have last: "(4::nat) = 4 \<or> length_v (fst ((spec_substep (4 / 4) ^^ 4)
                  (satPos radial_escape, satVel radial_escape))) < PLANET_RADIUS + 0.1"
    by simp
  note th = frame_integration [OF r c i escape_no_crash last]
  have 1: "(satPos (fst (useFrame 4 radial_escape)), satVel (fst (useFrame 4 radial_escape)))
     = (spec_substep (4 / 4) ^^ 4) (satPos radial_escape, satVel radial_escape)"
    using th by (rule conjunct1)
  have 2: "\<not> crashed (fst (useFrame 4 radial_escape))"
    using th [THEN conjunct2, THEN conjunct1] by simp
  have 3: "(spec_substep (4 / 4) ^^ 4) (satPos radial_escape, satVel radial_escape)
     = spec_substep 1 (Vector3 (1493279408090874894729621350949585806562762474431
                  / 21041520836177774511423322798901195133233018161) 0 0,
        Vector3 (83845347822729432205042588875330310725387726664
                  / 21041520836177774511423322798901195133233018161) 0 0)"
    by (simp add: funpow_4_step escape_3 radial_escape_def)
  have z: "(0::nat) < 4"
    by simp
  have "length_v (spec_accel (fst ((spec_substep (4 / 4) ^^ 0)
                (satPos radial_escape, satVel radial_escape))))
           = GM / (length_v (fst ((spec_substep (4 / 4) ^^ 0)
                (satPos radial_escape, satVel radial_escape))))\<^sup>2"
    using th [THEN conjunct2, THEN conjunct2, THEN conjunct1, rule_format, OF z,
        THEN conjunct2, THEN conjunct1] .
  then have 4: "length_v (spec_accel (satPos radial_escape)) = 20 / 3481"
    by (simp add: radial_escape_def length_v_axis GM_def)
  have 5: "PLANET_RADIUS + 0.1 \<le> length_v (satPos radial_escape)"
    by (simp add: radial_escape_def length_v_axis PLANET_RADIUS_def)
  have rf: "running radial_fall" and cf: "\<not> crashed radial_fall"
    by (simp_all add: radial_fall_def)
  have i2: "(2::nat) \<le> 4"
    by simp
  have last2: "(2::nat) = 4 \<or> length_v (fst ((spec_substep (4 / 4) ^^ 2)
                  (satPos radial_fall, satVel radial_fall))) < PLANET_RADIUS + 0.1"
    using fall_impact by (rule disjI2)
  note tf = frame_integration [OF rf cf i2 fall_prefix_ok last2]
  have "(satPos (fst (useFrame 4 radial_fall)), satVel (fst (useFrame 4 radial_fall)))
     = (spec_substep (4 / 4) ^^ 2) (satPos radial_fall, satVel radial_fall)"
    using tf by (rule conjunct1)
  then have 6: "(satPos (fst (useFrame 4 radial_fall)), satVel (fst (useFrame 4 radial_fall)))
     = (Vector3 (187 / 90) 0 0, Vector3 (- (301 / 180)) 0 0)"
    by (simp add: radial_fall_def fall_2)
  have 7: "crashed (fst (useFrame 4 radial_fall))"
    using tf [THEN conjunct2, THEN conjunct1] by simp
  show ?thesis
    using r c 1 2 3 4 5 rf cf 6 7 by simp
qed

subsection \<open>The frame callback: crash\<close>

text \<open>
  Claim C2. When, in a frame of a running and not yet crashed lab, the distance
  \<open>r = |position|\<close> is below \<open>R_body + 0.1\<close> at sub-step \<open>i\<close> for the first time, the crash
  callback fires (the last call of the frame), the crash flag is set and the status is
  \<open>CRASH\<close>; position and velocity stay as the \<open>i\<close> earlier sub-steps left them and the
  trail is not touched. From then on every frame returns the state unchanged, with no
  callback, and so does the launch button: nothing but a reset or a parameter change
  alters position, velocity or trail.
\<close>

theorem crash_freezes:
  assumes "running s" and "\<not> crashed s" and "i < 4"
    and "\<forall>j<i. PLANET_RADIUS + 0.1
            \<le> length_v (fst ((spec_substep (delta / 4) ^^ j) (satPos s, satVel s)))"
    and "length_v (fst ((spec_substep (delta / 4) ^^ i) (satPos s, satVel s)))
            < PLANET_RADIUS + 0.1"
  shows "fst (useFrame delta s)
           = s\<lparr>status := CRASH,
                satPos := fst ((spec_substep (delta / 4) ^^ i) (satPos s, satVel s)),
                satVel := snd ((spec_substep (delta / 4) ^^ i) (satPos s, satVel s)),
                crashed := True\<rparr> \<and>
         snd (useFrame delta s)
           = map (\<lambda>_. EscapeEvent)
               (filter (\<lambda>j. 60 < length_v (fst ((spec_substep (delta / 4) ^^ j)
                   (satPos s, satVel s)))) [0..<i]) @ [CrashEvent] \<and>
         (\<forall>d. useFrame d (fst (useFrame delta s)) = (fst (useFrame delta s), [])) \<and>
         (\<forall>ds. run (map Frame ds) (fst (useFrame delta s)) = fst (useFrame delta s)) \<and>
         handlePlay (fst (useFrame delta s)) = fst (useFrame delta s)"
proof -
  have uf: "useFrame delta s =
      (s\<lparr>status := CRASH,
          satPos := fst ((spec_substep (delta / 4) ^^ i) (satPos s, satVel s)),
          satVel := snd ((spec_substep (delta / 4) ^^ i) (satPos s, satVel s)),
          crashed := True\<rparr>,
       [] @ map (\<lambda>_. EscapeEvent)
               (filter (\<lambda>j. 60 < length_v (fst ((spec_substep (delta / 4) ^^ j)
                   (satPos s, satVel s)))) [0..<i]) @ [CrashEvent])"
    by (simp only: useFrame_active [OF assms(1,2)] forLoop_crash [OF assms(3,4,5)]
        outcome.case)
  have cr: "crashed (fst (useFrame delta s))"
    by (simp add: uf)
  have rn: "running (fst (useFrame delta s))"
    using assms(1) by (simp add: uf)
  show ?thesis
  proof (intro conjI allI)
    show "fst (useFrame delta s)
           = s\<lparr>status := CRASH,
                satPos := fst ((spec_substep (delta / 4) ^^ i) (satPos s, satVel s)),
                satVel := snd ((spec_substep (delta / 4) ^^ i) (satPos s, satVel s)),
                crashed := True\<rparr>"
      by (simp add: uf)
    show "snd (useFrame delta s)
           = map (\<lambda>_. EscapeEvent)
               (filter (\<lambda>j. 60 < length_v (fst ((spec_substep (delta / 4) ^^ j)
                   (satPos s, satVel s)))) [0..<i]) @ [CrashEvent]"
      by (simp add: uf)
    show "useFrame d (fst (useFrame delta s)) = (fst (useFrame delta s), [])" for d
      using cr by (simp add: useFrame_idle)
    show "run (map Frame ds) (fst (useFrame delta s)) = fst (useFrame delta s)" for ds
      using cr by (rule frames_after_crash)
    show "handlePlay (fst (useFrame delta s)) = fst (useFrame delta s)"
      using rn by (rule play_when_running)
  qed
qed

theorem crash_freezes_witness:
  "running radial_fall \<and> \<not> crashed radial_fall \<and>
   fst (useFrame 4 radial_fall)
     = radial_fall\<lparr>status := CRASH, satPos := Vector3 (187 / 90) 0 0,
         satVel := Vector3 (- (301 / 180)) 0 0, crashed := True\<rparr> \<and>
   snd (useFrame 4 radial_fall) = [CrashEvent] \<and>
   trail (fst (useFrame 4 radial_fall)) = trail radial_fall \<and>
   run [Frame 1, Frame 2, Frame 3] (fst (useFrame 4 radial_fall)) = fst (useFrame 4 radial_fall)"
proof -
  have r: "running radial_fall" and c: "\<not> crashed radial_fall"
    by (simp_all add: radial_fall_def)
  have i: "(2::nat) < 4"
    by simp
  note th = crash_freezes [OF r c i fall_prefix_ok fall_impact]
  have p: "(spec_substep (4 / 4) ^^ 2) (satPos radial_fall, satVel radial_fall)
             = (Vector3 (187 / 90) 0 0, Vector3 (- (301 / 180)) 0 0)"
    by (simp add: radial_fall_def fall_2)
  have e: "filter (\<lambda>j. 60 < length_v (fst ((spec_substep (4 / 4) ^^ j)
               (satPos radial_fall, satVel radial_fall)))) [0..<2] = []"
  proof -
    have "[0..<2] = [0, 1]"
      by code_simp
    then show ?thesis
      by (simp add: radial_fall_def fall_1 length_v_axis)
  qed
  have 1: "fst (useFrame 4 radial_fall)
     = radial_fall\<lparr>status := CRASH, satPos := Vector3 (187 / 90) 0 0,
         satVel := Vector3 (- (301 / 180)) 0 0, crashed := True\<rparr>"
    using th [THEN conjunct1] by (simp only: p fst_conv snd_conv)
  have 2: "snd (useFrame 4 radial_fall) = [CrashEvent]"
    using th [THEN conjunct2, THEN conjunct1] by (simp only: e list.map append_Nil)
  have 3: "run (map Frame [1, 2, 3]) (fst (useFrame 4 radial_fall)) = fst (useFrame 4 radial_fall)"
    using th by blast
  have 4: "trail (fst (useFrame 4 radial_fall)) = trail radial_fall"
    by (simp add: 1)
  show ?thesis
    using r c 1 2 3 4 by simp
qed

subsection \<open>The frame callback: escape\<close>

text \<open>
  Claim C3, as stated, fails: the escape callback is not a one-shot. In the frame in
  which the example state crosses the distance of 60 (it starts at 59) the callback is
  called in each of the three sub-steps that find \<open>r > 60\<close>.
\<close>

theorem escape_fires_in_three_substeps:
  "length_v (satPos radial_escape) \<le> 60 \<and>
   snd (useFrame 4 radial_escape) = [EscapeEvent, EscapeEvent, EscapeEvent]"
proof -
  have r: "running radial_escape" and c: "\<not> crashed radial_escape"
    by (simp_all add: radial_escape_def)
  have "forLoop 4 (4 / 4) radial_escape []
          = Continued (radial_escape\<lparr>status := (if [1, 2, 3 :: nat] = [] then status radial_escape else ESCAPE),
               satPos := fst ((spec_substep (4 / 4) ^^ 4) (satPos radial_escape, satVel radial_escape)),
               satVel := snd ((spec_substep (4 / 4) ^^ 4) (satPos radial_escape, satVel radial_escape))\<rparr>,
             [] @ map (\<lambda>_. EscapeEvent) [1, 2, 3 :: nat])"
    using forLoop_no_crash [OF escape_no_crash, of "[]"] by (simp only: escape_filter)
  then have "snd (useFrame 4 radial_escape) = [EscapeEvent, EscapeEvent, EscapeEvent]"
    by (simp add: useFrame_active [OF r c])
  moreover have "length_v (satPos radial_escape) \<le> 60"
    by (simp add: radial_escape_def length_v_axis)
  ultimately show ?thesis
    by simp
qed

text \<open>
  Claim C3, amended. In a frame of a running, not crashed lab in which no sub-step detects
  a crash, the escape callback is called once in every sub-step that finds \<open>r > 60\<close>, up
  to four times a frame and again in later frames; its only effect is the status
  \<open>ESCAPE\<close>. The state is not frozen: the frame still integrates all 4 sub-steps, and
  the lab stays running and not crashed, so later frames go on integrating.
\<close>

theorem escape_every_substep:
  assumes "running s" and "\<not> crashed s"
    and "\<forall>i<4. PLANET_RADIUS + 0.1
            \<le> length_v (fst ((spec_substep (delta / 4) ^^ i) (satPos s, satVel s)))"
  shows "snd (useFrame delta s)
           = map (\<lambda>_. EscapeEvent)
               (filter (\<lambda>i. 60 < length_v (fst ((spec_substep (delta / 4) ^^ i)
                   (satPos s, satVel s)))) [0..<4]) \<and>
         status (fst (useFrame delta s))
           = (if snd (useFrame delta s) = [] then status s else ESCAPE) \<and>
         running (fst (useFrame delta s)) \<and>
         \<not> crashed (fst (useFrame delta s)) \<and>
         (satPos (fst (useFrame delta s)), satVel (fst (useFrame delta s)))
           = (spec_substep (delta / 4) ^^ 4) (satPos s, satVel s)"
proof -
  define esc where "esc = filter (\<lambda>i. 60 < length_v (fst ((spec_substep (delta / 4) ^^ i)
                   (satPos s, satVel s)))) [0..<4]"
  have loop: "forLoop 4 (delta / 4) s [] = Continued
       (s\<lparr>status := (if esc = [] then status s else ESCAPE),
           satPos := fst ((spec_substep (delta / 4) ^^ 4) (satPos s, satVel s)),
           satVel := snd ((spec_substep (delta / 4) ^^ 4) (satPos s, satVel s))\<rparr>,
        [] @ map (\<lambda>_. EscapeEvent) esc)"
    unfolding esc_def by (rule forLoop_no_crash [OF assms(3)])
  have uf: "useFrame delta s =
       (s\<lparr>status := (if esc = [] then status s else ESCAPE),
           satPos := fst ((spec_substep (delta / 4) ^^ 4) (satPos s, satVel s)),
           satVel := snd ((spec_substep (delta / 4) ^^ 4) (satPos s, satVel s)),
           trail := updateTrail (trail s)
                      (fst ((spec_substep (delta / 4) ^^ 4) (satPos s, satVel s)))\<rparr>,
        map (\<lambda>_. EscapeEvent) esc)"
    by (simp add: useFrame_active [OF assms(1,2)] loop del: funpow.simps)
  show ?thesis
    using assms(1,2) unfolding uf esc_def [symmetric] by simp
qed

theorem escape_every_substep_witness:
  "running radial_escape \<and> \<not> crashed radial_escape \<and>
   status radial_escape = ORBITING \<and>
   status (fst (useFrame 4 radial_escape)) = ESCAPE \<and>
   running (fst (useFrame 4 radial_escape)) \<and>
   \<not> crashed (fst (useFrame 4 radial_escape)) \<and>
   length (snd (useFrame 4 radial_escape)) = 3"
proof -
  have r: "running radial_escape" and c: "\<not> crashed radial_escape"
    by (simp_all add: radial_escape_def)
  note th = escape_every_substep [OF r c escape_no_crash]
  have ev: "snd (useFrame 4 radial_escape) = map (\<lambda>_. EscapeEvent) [1, 2, 3 :: nat]"
    using th [THEN conjunct1] by (simp only: escape_filter)
  have st: "status (fst (useFrame 4 radial_escape)) = ESCAPE"
    using th [THEN conjunct2, THEN conjunct1] by (simp add: ev)
  have rc: "running (fst (useFrame 4 radial_escape))" "\<not> crashed (fst (useFrame 4 radial_escape))"
    using th by simp_all
  have so: "status radial_escape = ORBITING"
    by (simp add: radial_escape_def)
  show ?thesis
    using r c st rc so by (simp add: ev)
qed

subsection \<open>The trail\<close>

lemma loopBody_cases:
  "loopBody h s = Returned (s', e) \<Longrightarrow> crashed s' \<and> trail s' = trail s"
  "loopBody h s = Continued (s', e) \<Longrightarrow> crashed s' = crashed s \<and> trail s' = trail s"
  by (auto simp: loopBody_def Let_def onCrash_def onEscape_def split: if_splits)

lemma forLoop_Returned:
  "forLoop n h s evs = Returned (s', e) \<Longrightarrow> crashed s' \<and> trail s' = trail s"
proof (induction n arbitrary: s evs)
  case 0
  then show ?case by simp
next
  case (Suc n)
  show ?case
  proof (cases "loopBody h s")
    case (Returned res)
    then show ?thesis
      using Suc.prems loopBody_cases(1) [of h s "fst res" "snd res"]
      by (cases res) auto
  next
    case (Continued res)
    obtain s1 e1 where res: "res = (s1, e1)"
      by (cases res)
    have "forLoop n h s1 (evs @ e1) = Returned (s', e)"
      using Suc.prems Continued res by simp
    then have "crashed s' \<and> trail s' = trail s1"
      by (rule Suc.IH)
    then show ?thesis
      using loopBody_cases(2) [of h s s1 e1] Continued res by simp
  qed
qed

lemma forLoop_Continued:
  "forLoop n h s evs = Continued (s', e) \<Longrightarrow> crashed s' = crashed s \<and> trail s' = trail s"
proof (induction n arbitrary: s evs)
  case 0
  then show ?case by simp
next
  case (Suc n)
  show ?case
  proof (cases "loopBody h s")
    case (Returned res)
    then show ?thesis
      using Suc.prems by (cases res) auto
  next
    case (Continued res)
    obtain s1 e1 where res: "res = (s1, e1)"
      by (cases res)
    have "forLoop n h s1 (evs @ e1) = Continued (s', e)"
      using Suc.prems Continued res by simp
    then have "crashed s' = crashed s1 \<and> trail s' = trail s1"
      by (rule Suc.IH)
    then show ?thesis
      using loopBody_cases(2) [of h s s1 e1] Continued res by simp
  qed
qed

lemma updateTrail_length: "length xs \<le> 301 \<Longrightarrow> length (updateTrail xs p) \<le> 301"
  by (auto simp: updateTrail_def)

lemma useFrame_trail:
  "trail (fst (useFrame delta s))
     = (if running s \<and> \<not> crashed s \<and> \<not> crashed (fst (useFrame delta s))
        then updateTrail (trail s) (satPos (fst (useFrame delta s)))
        else trail s)"
proof (cases "\<not> running s \<or> crashed s")
  case True
  then show ?thesis
    by (auto simp: useFrame_idle)
next
  case False
  then have r: "running s" and c: "\<not> crashed s"
    by simp_all
  show ?thesis
  proof (cases "forLoop 4 (delta / 4) s []")
    case (Returned res)
    obtain s1 e1 where res: "res = (s1, e1)"
      by (cases res)
    have "crashed s1 \<and> trail s1 = trail s"
      using forLoop_Returned Returned res by blast
    then show ?thesis
      using r c by (simp add: useFrame_active [OF r c] Returned res)
  next
    case (Continued res)
    obtain s1 e1 where res: "res = (s1, e1)"
      by (cases res)
    have "crashed s1 = crashed s \<and> trail s1 = trail s"
      using forLoop_Continued Continued res by blast
    then show ?thesis
      using r c by (simp add: useFrame_active [OF r c] Continued res)
  qed
qed

lemma step_trail_bound: "length (trail s) \<le> 301 \<Longrightarrow> length (trail (step a s)) \<le> 301"
proof (cases a)
  case (Frame delta)
  assume "length (trail s) \<le> 301"
  then show ?thesis
    unfolding Frame step.simps useFrame_trail [of delta s]
    by (simp add: updateTrail_length)
next
  case Play
  assume "length (trail s) \<le> 301"
  then show ?thesis
    by (simp add: Play handlePlay_def)
next
  case Reset
  show ?thesis
    by (simp add: Reset handleReset_explicit)
next
  case (ChangeSpeed v)
  show ?thesis
    by (simp add: ChangeSpeed onChangeSpeed_def handleReset_explicit)
next
  case (ChangeAngle v)
  show ?thesis
    by (simp add: ChangeAngle onChangeAngle_def handleReset_explicit)
qed

lemma run_trail_bound: "length (trail s) \<le> 301 \<Longrightarrow> length (trail (run acts s)) \<le> 301"
  by (induction acts arbitrary: s) (simp_all add: step_trail_bound)

lemma mounted_trail: "trail mounted = [Vector3 INITIAL_RADIUS 0 0]"
  by (simp add: mounted_def resetEffect_def Let_def)

text \<open>
  Claim C9. In a frame of a running, not crashed lab that detects no crash, the position
  reached after the sub-steps is appended to the trail only if it is more than 0.2 away
  from the last recorded point; only the last 300 points are kept before it, the oldest
  being dropped first. Every other frame leaves the trail as it is. So a trail of at most
  301 points stays so, and from the mounting of the lab on, whatever frames and inputs
  follow, the trail never has more than 301 points.
\<close>

theorem trail_sampling_and_bound:
  "trail (fst (useFrame delta s))
     = (if running s \<and> \<not> crashed s \<and> \<not> crashed (fst (useFrame delta s))
        then (if trail s \<noteq> [] \<and> 0.2 < distanceTo (last (trail s)) (satPos (fst (useFrame delta s)))
              then drop (length (trail s) - 300) (trail s) @ [satPos (fst (useFrame delta s))]
              else trail s)
        else trail s) \<and>
   (length (trail s) \<le> 301 \<longrightarrow> length (trail (run acts s)) \<le> 301) \<and>
   length (trail (run acts mounted)) \<le> 301"
proof -
  have "length (trail mounted) \<le> 301"
    by (simp add: mounted_trail)
  then have "length (trail (run acts mounted)) \<le> 301"
    by (rule run_trail_bound)
  then show ?thesis
    using run_trail_bound [of s acts] by (simp add: useFrame_trail [of delta s] updateTrail_def)
qed

theorem trail_sampling_and_bound_witness:
  "length (trail (run [Play, Frame 4, Reset, ChangeSpeed 3, Play, Frame 0] mounted)) \<le> 301 \<and>
   0.2 < distanceTo (last (trail radial_escape)) (satPos (fst (useFrame 4 radial_escape))) \<and>
   trail (fst (useFrame 4 radial_escape))
     = [Vector3 59 0 0, satPos (fst (useFrame 4 radial_escape))] \<and>
   length (trail full_trail) = 301 \<and>
   trail (fst (useFrame 4 full_trail))
     = replicate 300 (Vector3 59 0 0) @ [satPos (fst (useFrame 4 full_trail))] \<and>
   length (trail (fst (useFrame 4 full_trail))) = 301"
proof -
  have r: "running radial_escape" and c: "\<not> crashed radial_escape"
    by (simp_all add: radial_escape_def)
  have rf: "running full_trail" and cf: "\<not> crashed full_trail"
    by (simp_all add: radial_escape_def full_trail_def)
  have okf: "\<forall>i<4. PLANET_RADIUS + 0.1
      \<le> length_v (fst ((spec_substep (4 / 4) ^^ i) (satPos full_trail, satVel full_trail)))"
    using escape_no_crash by (simp add: full_trail_def)
  obtain X where X: "fst ((spec_substep 1 ^^ 4) (Vector3 59 0 0, Vector3 4 0 0)) = Vector3 X 0 0"
      and far: "59.2 < X"
    using escape_4_far by blast
  have p: "satPos (fst (useFrame 4 radial_escape)) = Vector3 X 0 0"
    using useFrame_no_crash(1) [OF r c escape_no_crash] X by (simp add: radial_escape_def)
  have nc: "\<not> crashed (fst (useFrame 4 radial_escape))"
    by (rule useFrame_no_crash(2) [OF r c escape_no_crash])
  have pf: "satPos (fst (useFrame 4 full_trail)) = Vector3 X 0 0"
    using useFrame_no_crash(1) [OF rf cf okf] X by (simp add: radial_escape_def full_trail_def)
  have ncf: "\<not> crashed (fst (useFrame 4 full_trail))"
    by (rule useFrame_no_crash(2) [OF rf cf okf])
  have d: "0.2 < distanceTo (Vector3 59 0 0) (Vector3 X 0 0)"
    using far by (simp add: distanceTo_axis)
  have t: "trail radial_escape = [Vector3 59 0 0]"
    by (simp add: radial_escape_def)
  have tf: "trail full_trail = replicate 301 (Vector3 59 0 0)"
    by (simp add: full_trail_def)
  have lf: "last (replicate 301 (Vector3 59 0 0)) = Vector3 59 0 0"
    by simp
  have 1: "length (trail (run [Play, Frame 4, Reset, ChangeSpeed 3, Play, Frame 0] mounted)) \<le> 301"
    using trail_sampling_and_bound [of 0 mounted "[Play, Frame 4, Reset, ChangeSpeed 3, Play, Frame 0]"]
    by (rule conjunct2 [THEN conjunct2])
  have 2: "trail (fst (useFrame 4 radial_escape))
     = [Vector3 59 0 0, satPos (fst (useFrame 4 radial_escape))]"
    using trail_sampling_and_bound [of 4 radial_escape "[]", THEN conjunct1] r c nc d
    by (simp add: p t)
  have 3: "trail (fst (useFrame 4 full_trail))
     = replicate 300 (Vector3 59 0 0) @ [satPos (fst (useFrame 4 full_trail))]"
    using trail_sampling_and_bound [of 4 full_trail "[]", THEN conjunct1] rf cf ncf d
    by (simp add: pf tf lf)
  show ?thesis
    using 1 2 3 d by (simp add: p t tf)
qed

end
